theory Spec2Isabelle
  imports Complex_Main "HOL-Library.Word"
begin

section \<open>M199: wait for the PINDA bed-level sensor to reach a temperature\<close>

text \<open>
  The development follows \<^verbatim>\<open>Marlin/src/gcode/temperature/M199.cpp\<close>, the G-code
  handler \<^verbatim>\<open>GcodeSuite::M199\<close>. The handler talks to the parser, the thermal manager,
  the serial port, the display, the scheduler and the millisecond clock. Each call that
  changes something outside the handler is recorded, in program order, in a list of calls
  kept in the state of the outside world; each call that reads something outside the
  handler (the clock, the sensor) takes its answer from an environment that fixes the
  answer of the k-th read.
\<close>

subsection \<open>Types of the firmware\<close>

type_synonym millis_t = "32 word"
type_synonym int16_t = "16 word"
type_synonym int8_t = "8 word"

text \<open>
  \<^verbatim>\<open>millis_t\<close> is the firmware's unsigned 32-bit millisecond counter, so \<open>+\<close> wraps
  around at \<open>2 ^ 32\<close>. \<^verbatim>\<open>int16_t\<close> and \<^verbatim>\<open>int8_t\<close> are read as two's complement
  with \<open>sint\<close>.
\<close>

text \<open>
  The sensor temperature is a \<^verbatim>\<open>float\<close>. A value of that type is a number, one of
  the two infinities, or not a number (NaN); a number is kept as the real number it
  denotes. The comparisons are those of the hardware: a comparison with NaN on either
  side is false, the infinities lie below and above every number, and numbers compare as
  reals. The comparison of a reading with the \<^verbatim>\<open>int16_t\<close> target promotes the target
  to \<^verbatim>\<open>float\<close>, which is exact for every 16-bit value.
\<close>

datatype float = NaN | Minus_infinity | Finite real | Plus_infinity

definition float_less :: "float \<Rightarrow> float \<Rightarrow> bool" where
  "float_less x y =
     (case (x, y) of
        (Finite a, Finite b) \<Rightarrow> a < b
      | (Minus_infinity, Finite b) \<Rightarrow> True
      | (Minus_infinity, Plus_infinity) \<Rightarrow> True
      | (Finite a, Plus_infinity) \<Rightarrow> True
      | _ \<Rightarrow> False)"

definition float_greater :: "float \<Rightarrow> float \<Rightarrow> bool" where
  "float_greater x y = float_less y x"

definition float_less_eq :: "float \<Rightarrow> float \<Rightarrow> bool" where
  "float_less_eq x y = (float_less x y \<or> (x \<noteq> NaN \<and> x = y))"

definition float_greater_eq :: "float \<Rightarrow> float \<Rightarrow> bool" where
  "float_greater_eq x y = float_less_eq y x"

definition float_of_int16 :: "int16_t \<Rightarrow> float" where
  "float_of_int16 t = Finite (real_of_int (sint t))"

text \<open>
  Modelled from the spec: the macro \<^verbatim>\<open>ELAPSED(NOW, SOON)\<close> is used by
  \<^verbatim>\<open>M199.cpp\<close> and declared in the firmware's core headers, outside that file. It
  says that the time \<open>NOW\<close> has reached or passed the time \<open>SOON\<close>; on the wrapping
  32-bit counter this is the firmware's test that the difference of the two, read as a
  signed 32-bit number, is not negative.
\<close>

definition ELAPSED :: "millis_t \<Rightarrow> millis_t \<Rightarrow> bool" where
  "ELAPSED NOW SOON = (0 \<le> sint (NOW - SOON))"

subsection \<open>The outside world\<close>

datatype call =
    Serial_echopgm string
  | Serial_echo int16_t
  | Serial_eol
  | SetTargetPinda int16_t
  | Print_heater_states int8_t
  | Status_printf_P bool int16_t int16_t
  | Idle
  | Reset_stepper_timeout
  | Reset_status

record world =
  millis_calls :: nat
  degPinda_calls :: nat
  target_pinda :: int16_t
  calls :: "call list"

record env =
  millis_at :: "nat \<Rightarrow> millis_t"
  degPinda_at :: "nat \<Rightarrow> float"

text \<open>
  \<open>millis_at e k\<close> is what the k-th call of \<^verbatim>\<open>millis()\<close> returns, \<open>degPinda_at e k\<close>
  what the k-th call of \<^verbatim>\<open>thermalManager.degPinda()\<close> returns (both counted from 0
  over the life of the world). \<open>target_pinda\<close> is the sensor's target register, written by
  \<^verbatim>\<open>thermalManager.setTargetPinda\<close>.
\<close>

definition millis :: "env \<Rightarrow> world \<Rightarrow> millis_t \<times> world" where
  "millis e w = (millis_at e (millis_calls w), w\<lparr>millis_calls := Suc (millis_calls w)\<rparr>)"

definition degPinda :: "env \<Rightarrow> world \<Rightarrow> float \<times> world" where
  "degPinda e w = (degPinda_at e (degPinda_calls w), w\<lparr>degPinda_calls := Suc (degPinda_calls w)\<rparr>)"

definition emit :: "call \<Rightarrow> world \<Rightarrow> world" where
  "emit c w = w\<lparr>calls := calls w @ [c]\<rparr>"

definition SERIAL_ECHOPGM :: "string \<Rightarrow> world \<Rightarrow> world" where
  "SERIAL_ECHOPGM s = emit (Serial_echopgm s)"

definition SERIAL_ECHO :: "int16_t \<Rightarrow> world \<Rightarrow> world" where
  "SERIAL_ECHO v = emit (Serial_echo v)"

definition SERIAL_EOL :: "world \<Rightarrow> world" where
  "SERIAL_EOL = emit Serial_eol"

definition setTargetPinda :: "int16_t \<Rightarrow> world \<Rightarrow> world" where
  "setTargetPinda v w = emit (SetTargetPinda v) (w\<lparr>target_pinda := v\<rparr>)"

definition print_heater_states :: "int8_t \<Rightarrow> world \<Rightarrow> world" where
  "print_heater_states x = emit (Print_heater_states x)"

definition status_printf_P :: "bool \<Rightarrow> int16_t \<Rightarrow> int16_t \<Rightarrow> world \<Rightarrow> world" where
  "status_printf_P cooling p t = emit (Status_printf_P cooling p t)"

definition idle :: "world \<Rightarrow> world" where
  "idle = emit Idle"

definition reset_stepper_timeout :: "world \<Rightarrow> world" where
  "reset_stepper_timeout = emit Reset_stepper_timeout"

definition reset_status :: "world \<Rightarrow> world" where
  "reset_status = emit Reset_status"

text \<open>
  \<^verbatim>\<open>int16_t(pinda_temp)\<close>, the argument of the display line: the conversion of a
  \<^verbatim>\<open>float\<close> to a 16-bit integer drops the fraction (towards zero). For a number outside
  the range of \<^verbatim>\<open>int16_t\<close>, an infinity or NaN, C++ leaves the result open; the model
  wraps a number and gives \<open>0\<close> otherwise, and no statement below depends on it.
\<close>

definition int16_of_float :: "float \<Rightarrow> int16_t" where
  "int16_of_float x =
     (case x of
        Finite r \<Rightarrow> word_of_int (if 0 \<le> r then \<lfloor>r\<rfloor> else \<lceil>r\<rceil>)
      | _ \<Rightarrow> 0)"

subsection \<open>The command line and the build\<close>

record invocation =
  DRYRUN :: bool
  param_S :: "int16_t option"
  seen_W :: bool
  seen_C :: bool
  param_T :: "millis_t option"
  degTargetBed :: int16_t
  degTargetHotend0 :: int16_t
  get_target_extruder_from_command :: int8_t

text \<open>
  \<open>DRYRUN\<close> is \<^verbatim>\<open>DEBUGGING(DRYRUN)\<close>. \<open>param_S\<close> is \<open>Some v\<close> when
  \<^verbatim>\<open>parser.seenval('S')\<close> holds, with \<open>v\<close> the value \<^verbatim>\<open>(int16_t)parser.value_celsius()\<close>.
  \<open>seen_W\<close> and \<open>seen_C\<close> are \<^verbatim>\<open>parser.seen('W')\<close> and \<^verbatim>\<open>parser.seen('C')\<close>.
  \<open>param_T\<close> is \<open>Some d\<close> when \<^verbatim>\<open>parser.seenval('T')\<close> holds, with \<open>d\<close> the value
  \<^verbatim>\<open>parser.value_millis_from_seconds()\<close>, the seconds of the parameter in milliseconds
  (so \<^verbatim>\<open>T0\<close> is \<open>Some 0\<close> and \<^verbatim>\<open>T2\<close> is \<open>Some 2000\<close>). \<open>degTargetBed\<close> and
  \<open>degTargetHotend0\<close> are the target temperatures \<^verbatim>\<open>thermalManager.degTargetBed()\<close>
  and \<^verbatim>\<open>thermalManager.degTargetHotend(0)\<close>; \<open>get_target_extruder_from_command\<close>
  is what the function of that name returns (the function is defined outside
  \<^verbatim>\<open>M199.cpp\<close>; only its result enters the model).
\<close>

record config =
  ULTRA_LCD :: bool
  MIXING_VIRTUAL_TOOLS :: bool

text \<open>
  \<open>ULTRA_LCD\<close> is \<^verbatim>\<open>ENABLED(ULTRA_LCD)\<close>; \<open>MIXING_VIRTUAL_TOOLS\<close> is
  \<^verbatim>\<open>ENABLED(MIXING_EXTRUDER) && MIXING_VIRTUAL_TOOLS > 1\<close>.
\<close>

subsection \<open>The direction of the wait\<close>

definition is_pinda_cooling :: "invocation \<Rightarrow> bool" where
  "is_pinda_cooling cmd =
     (\<not> seen_W cmd \<and> ((degTargetBed cmd = 0 \<and> degTargetHotend0 cmd = 0) \<or> seen_C cmd))"

datatype direction = Cooling | Warming

definition direction_of :: "bool \<Rightarrow> direction" where
  "direction_of c = (if c then Cooling else Warming)"

subsection \<open>The poll loop\<close>

datatype exit_state = Completed | TimedOut

record locals =
  target_temp :: int16_t
  cooling :: bool
  timeout :: millis_t
  target_extruder :: int8_t

record loop_state =
  now :: millis_t
  next_serial_status_ms :: millis_t
  passes :: nat
  outside :: world

text \<open>
  \<open>locals\<close> are the variables that the loop only reads (\<open>cooling\<close> is
  \<^verbatim>\<open>is_pinda_cooling\<close>), \<open>loop_state\<close> the ones it writes. \<open>passes\<close> is not a
  variable of the program: it counts how many times the body of the loop has been
  entered. \<^verbatim>\<open>pinda_temp\<close> is assigned at the top of every pass before it is read, so it
  is local to a pass.
\<close>

definition status_report :: "config \<Rightarrow> locals \<Rightarrow> float \<Rightarrow> world \<Rightarrow> world" where
  "status_report cfg l pinda_temp w =
     (let w1 = SERIAL_EOL (print_heater_states (target_extruder l) w)
      in if ULTRA_LCD cfg
         then status_printf_P (cooling l) (int16_of_float pinda_temp) (target_temp l) w1
         else w1)"

definition timeout_message :: "locals \<Rightarrow> world \<Rightarrow> world" where
  "timeout_message l w =
     SERIAL_EOL
       (SERIAL_ECHOPGM (if cooling l then ''cool-down'' else ''warm-up'')
         (SERIAL_ECHOPGM ''TIMEOUT on sensor '' w))"

definition keep_waiting :: "locals \<Rightarrow> float \<Rightarrow> bool" where
  "keep_waiting l pinda_temp =
     ((\<not> cooling l \<and> float_less pinda_temp (float_of_int16 (target_temp l)))
      \<or> (cooling l \<and> float_greater pinda_temp (float_of_int16 (target_temp l))))"

text \<open>
  One pass through the body of the \<^verbatim>\<open>do ... while\<close> loop, up to and including the
  test of the loop condition: \<open>None\<close> when the loop goes round again, \<open>Some TimedOut\<close>
  when the pass leaves through \<^verbatim>\<open>break\<close>, \<open>Some Completed\<close> when the loop condition
  \<open>keep_waiting\<close> is false.
\<close>

definition loop_body ::
  "config \<Rightarrow> env \<Rightarrow> locals \<Rightarrow> loop_state \<Rightarrow> exit_state option \<times> loop_state" where
  "loop_body cfg e l s =
     (let (pinda_temp, w1) = degPinda e (outside s);
          report = ELAPSED (now s) (next_serial_status_ms s);
          next' = (if report then now s + 1000 else next_serial_status_ms s);
          w2 = (if report then status_report cfg l pinda_temp w1 else w1);
          w3 = reset_stepper_timeout (idle w2);
          (now', w4) = millis e w3;
          s' = \<lparr>now = now', next_serial_status_ms = next', passes = Suc (passes s),
                 outside = w4\<rparr>
      in if timeout l \<noteq> 0 \<and> ELAPSED now' (timeout l)
         then (Some TimedOut, s'\<lparr>outside := timeout_message l w4\<rparr>)
         else if keep_waiting l pinda_temp then (None, s')
         else (Some Completed, s'))"

text \<open>
  The loop has no bound on the number of passes, so it is a partial function: \<open>None\<close>
  means that the loop never ends.
\<close>

partial_function (option) do_while ::
  "config \<Rightarrow> env \<Rightarrow> locals \<Rightarrow> loop_state \<Rightarrow> (exit_state \<times> loop_state) option" where
  "do_while cfg e l s =
     (case loop_body cfg e l s of
        (Some x, s') \<Rightarrow> Some (x, s')
      | (None, s') \<Rightarrow> do_while cfg e l s')"

declare do_while.simps [code]

text \<open>
  The first \<open>n\<close> passes of the loop (fewer when the loop ends before): the state reached
  and, when the loop has ended, how.
\<close>

fun passes_upto ::
  "config \<Rightarrow> env \<Rightarrow> locals \<Rightarrow> nat \<Rightarrow> loop_state \<Rightarrow> exit_state option \<times> loop_state" where
  "passes_upto cfg e l 0 s = (None, s)"
| "passes_upto cfg e l (Suc n) s =
     (case loop_body cfg e l s of
        (Some x, s') \<Rightarrow> (Some x, s')
      | (None, s') \<Rightarrow> passes_upto cfg e l n s')"

subsection \<open>The command\<close>

definition read_timeout :: "env \<Rightarrow> invocation \<Rightarrow> world \<Rightarrow> millis_t \<times> world" where
  "read_timeout e cmd w =
     (case param_T cmd of
        None \<Rightarrow> (0, w)
      | Some d \<Rightarrow> (let (t, w') = millis e w in (t + d, w')))"

definition announce :: "bool \<Rightarrow> int16_t \<Rightarrow> world \<Rightarrow> world" where
  "announce c target w =
     SERIAL_EOL
       (SERIAL_ECHO target
         (SERIAL_ECHOPGM '' to target temperature: ''
           (SERIAL_ECHOPGM (if c then ''cool down'' else ''warm up'')
             (SERIAL_ECHOPGM ''Wait for sensor '' w))))"

definition wait_entry :: "env \<Rightarrow> locals \<Rightarrow> world \<Rightarrow> loop_state" where
  "wait_entry e l w =
     (let w2 = announce (cooling l) (target_temp l) w;
          (now0, w3) = millis e w2
      in \<lparr>now = now0, next_serial_status_ms = now0 + 1000, passes = 0,
           outside = setTargetPinda (target_temp l) w3\<rparr>)"

definition wait_exit :: "world \<Rightarrow> world" where
  "wait_exit w = setTargetPinda 0 (reset_status w)"

definition resolve_extruder :: "config \<Rightarrow> invocation \<Rightarrow> int8_t" where
  "resolve_extruder cfg cmd =
     (if MIXING_VIRTUAL_TOOLS cfg then 0 else get_target_extruder_from_command cmd)"

definition M199_locals :: "config \<Rightarrow> env \<Rightarrow> invocation \<Rightarrow> int16_t \<Rightarrow> world \<Rightarrow> locals" where
  "M199_locals cfg e cmd target w =
     \<lparr>target_temp = target, cooling = is_pinda_cooling cmd,
      timeout = fst (read_timeout e cmd w), target_extruder = resolve_extruder cfg cmd\<rparr>"

definition entry_read :: "env \<Rightarrow> invocation \<Rightarrow> world \<Rightarrow> nat" where
  "entry_read e cmd w = millis_calls (snd (read_timeout e cmd w))"

definition M199_entry :: "config \<Rightarrow> env \<Rightarrow> invocation \<Rightarrow> int16_t \<Rightarrow> world \<Rightarrow> loop_state" where
  "M199_entry cfg e cmd target w =
     wait_entry e (M199_locals cfg e cmd target w) (snd (read_timeout e cmd w))"

definition M199 ::
  "config \<Rightarrow> env \<Rightarrow> invocation \<Rightarrow> world \<Rightarrow> ((exit_state \<times> nat) option \<times> world) option" where
  "M199 cfg e cmd w =
     (if DRYRUN cmd then Some (None, w)
      else case param_S cmd of
        None \<Rightarrow> Some (None, w)
      | Some target \<Rightarrow>
          (let l = M199_locals cfg e cmd target w
           in if sint (target_extruder l) < 0 then Some (None, snd (read_timeout e cmd w))
              else
                (case do_while cfg e l (M199_entry cfg e cmd target w) of
                   None \<Rightarrow> None
                 | Some (x, s') \<Rightarrow> Some (Some (x, passes s'), wait_exit (outside s')))))"

text \<open>
  \<open>M199_locals\<close> collects what the command computes before the loop: the target, the
  direction, the deadline (\<open>0\<close> stands for none) and the extruder whose heater states
  the status line prints. \<open>entry_read\<close> is the number of the read of the clock at the
  entry of the loop (\<^verbatim>\<open>millis_t now = millis()\<close>). \<open>M199_entry\<close> is the state in
  which the loop is entered, after the announcement, the read of the clock and the commit
  of the target.

  The result of \<open>M199\<close> is \<open>None\<close> when the command never returns. Otherwise it is
  the world the command leaves behind, together with \<open>None\<close> when the loop was not
  entered and \<open>Some (x, n)\<close> when the loop was left in state \<open>x\<close> after \<open>n\<close>
  passes.
\<close>

subsection \<open>What a pass does, in the words of the specification\<close>

text \<open>
  The calls of one periodic status report, the calls of the time-out diagnostic, whether
  the deadline check of the pass that starts in state \<open>s\<close> fires (the check reads the
  clock after the yield), and whether a call belongs to a periodic status report.
\<close>

definition report_calls :: "config \<Rightarrow> locals \<Rightarrow> float \<Rightarrow> call list" where
  "report_calls cfg l r =
     [Print_heater_states (target_extruder l), Serial_eol] @
     (if ULTRA_LCD cfg
      then [Status_printf_P (cooling l) (int16_of_float r) (target_temp l)] else [])"

definition timeout_calls :: "locals \<Rightarrow> call list" where
  "timeout_calls l =
     [Serial_echopgm ''TIMEOUT on sensor '',
      Serial_echopgm (if cooling l then ''cool-down'' else ''warm-up''), Serial_eol]"

definition deadline_fires :: "env \<Rightarrow> locals \<Rightarrow> loop_state \<Rightarrow> bool" where
  "deadline_fires e l s =
     (timeout l \<noteq> 0 \<and> ELAPSED (millis_at e (millis_calls (outside s))) (timeout l))"

definition is_report :: "call \<Rightarrow> bool" where
  "is_report c =
     (case c of Print_heater_states x \<Rightarrow> True | Status_printf_P d p t \<Rightarrow> True | _ \<Rightarrow> False)"

text \<open>
  The exit predicate as the specification words it: the wait is complete when the
  direction is warming and the reading is at or above the target, or the direction is
  cooling and the reading is at or below the target. The two comparisons are those of
  \<^verbatim>\<open>float\<close>, so the predicate is false of a reading that is not a number.
\<close>

definition exit_predicate :: "direction \<Rightarrow> float \<Rightarrow> int16_t \<Rightarrow> bool" where
  "exit_predicate d reading target =
     ((d = Warming \<and> float_greater_eq reading (float_of_int16 target))
      \<or> (d = Cooling \<and> float_less_eq reading (float_of_int16 target)))"

subsection \<open>Example data\<close>

text \<open>
  A world in which nothing has happened yet, and a build with a display and without
  virtual mixing tools.
\<close>

definition fresh_world :: world where
  "fresh_world = \<lparr>millis_calls = 0, degPinda_calls = 0, target_pinda = 0, calls = []\<rparr>"

definition lcd_build :: config where
  "lcd_build = \<lparr>ULTRA_LCD = True, MIXING_VIRTUAL_TOOLS = False\<rparr>"

text \<open>
  Clocks and sensors for the examples: a clock that shows \<open>start\<close> at the first read
  and \<open>step\<close> milliseconds more at each further read; a clock that shows \<open>0\<close> for
  the first \<open>n\<close> reads and \<open>t\<close> from then on; a sensor that always reads the number
  \<open>r\<close>; a sensor that reads the numbers of a list in turn, and the last of them from
  then on; a sensor whose every reading is not a number.
\<close>

definition steady_clock :: "millis_t \<Rightarrow> nat \<Rightarrow> nat \<Rightarrow> millis_t" where
  "steady_clock start step k = start + of_nat (step * k)"

definition jumping_clock :: "nat \<Rightarrow> millis_t \<Rightarrow> nat \<Rightarrow> millis_t" where
  "jumping_clock n t k = (if k < n then 0 else t)"

definition steady_sensor :: "real \<Rightarrow> nat \<Rightarrow> float" where
  "steady_sensor r k = Finite r"

definition sensor_reading :: "real list \<Rightarrow> nat \<Rightarrow> float" where
  "sensor_reading rs k = Finite (if k < length rs then rs ! k else last rs)"

definition faulty_sensor :: "nat \<Rightarrow> float" where
  "faulty_sensor k = NaN"

section \<open>The loop as a partial function\<close>

text \<open>
  \<open>do_while\<close> returns exactly when some number of passes ends the loop, and then it
  returns what those passes computed.
\<close>

lemma loop_exit:
  "loop_body cfg e l s = (Some x, s') \<Longrightarrow> do_while cfg e l s = Some (x, s')"
  by (subst do_while.simps) simp
lemma loop_again:
  "loop_body cfg e l s = (None, s') \<Longrightarrow> do_while cfg e l s = do_while cfg e l s'"
  by (subst do_while.simps) simp
lemma passes_upto_do_while:
  "passes_upto cfg e l n s = (Some x, s') \<Longrightarrow> do_while cfg e l s = Some (x, s')"
proof (induction n arbitrary: s)
  case 0 then show ?case by simp
next
  case (Suc n)
  obtain r t where b: "loop_body cfg e l s = (r, t)" by (cases "loop_body cfg e l s")
  show ?case
  proof (cases r)
    case None
    with b Suc.prems have "passes_upto cfg e l n t = (Some x, s')" by simp
    then have "do_while cfg e l t = Some (x, s')" by (rule Suc.IH)
    with b None show ?thesis by (simp add: loop_again)
  next
    case (Some y)
    with b Suc.prems show ?thesis by (simp add: loop_exit)
  qed
qed
lemma do_while_passes_upto:
  assumes "do_while cfg e l s = Some (x, s')"
  shows "\<exists>n. passes_upto cfg e l n s = (Some x, s')"
proof -
  have "\<exists>n. passes_upto cfg e l n s = (Some (fst y), snd y)"
    if "do_while cfg e l s = Some y" for y
    using that
  proof (rule do_while.raw_induct
      [rotated, where P = "\<lambda>cfg e l s y. \<exists>n. passes_upto cfg e l n s = (Some (fst y), snd y)"])
    fix f :: "config \<Rightarrow> env \<Rightarrow> locals \<Rightarrow> loop_state \<Rightarrow> (exit_state \<times> loop_state) option"
    fix cfg e l s y
    assume IH: "\<And>cfg e l s y. f cfg e l s = Some y
        \<Longrightarrow> \<exists>n. passes_upto cfg e l n s = (Some (fst y), snd y)"
    assume step: "(case loop_body cfg e l s of (None, s') \<Rightarrow> f cfg e l s'
        | (Some x, s') \<Rightarrow> Some (x, s')) = Some y"
    obtain r t where b: "loop_body cfg e l s = (r, t)" by (cases "loop_body cfg e l s")
    show "\<exists>n. passes_upto cfg e l n s = (Some (fst y), snd y)"
    proof (cases r)
      case None
      with b step have "f cfg e l t = Some y" by simp
      then obtain n where "passes_upto cfg e l n t = (Some (fst y), snd y)"
        using IH by blast
      with b None have "passes_upto cfg e l (Suc n) s = (Some (fst y), snd y)" by simp
      then show ?thesis by blast
    next
      case (Some z)
      with b step have "passes_upto cfg e l (Suc 0) s = (Some (fst y), snd y)" by auto
      then show ?thesis by blast
    qed
  qed
  from this [OF assms] show ?thesis by simp
qed
lemma do_while_None:
  assumes "\<And>n. fst (passes_upto cfg e l n s) = None"
  shows "do_while cfg e l s = None"
proof (cases "do_while cfg e l s")
  case None then show ?thesis .
next
  case (Some y)
  then have "do_while cfg e l s = Some (fst y, snd y)" by simp
  then obtain n where "passes_upto cfg e l n s = (Some (fst y), snd y)"
    using do_while_passes_upto by blast
  with assms [of n] show ?thesis by simp
qed


section \<open>One pass of the loop\<close>

lemmas world_ops = millis_def degPinda_def emit_def SERIAL_ECHOPGM_def SERIAL_ECHO_def
  SERIAL_EOL_def setTargetPinda_def print_heater_states_def status_printf_P_def idle_def
  reset_stepper_timeout_def reset_status_def

lemmas pass_defs = loop_body_def status_report_def timeout_message_def world_ops Let_def

lemma loop_body_exit:
  "fst (loop_body cfg e l s) =
     (if deadline_fires e l s then Some TimedOut
      else if keep_waiting l (degPinda_at e (degPinda_calls (outside s))) then None
      else Some Completed)"
  by (simp add: pass_defs deadline_fires_def)

lemma loop_body_calls:
  "calls (outside (snd (loop_body cfg e l s))) =
     calls (outside s)
     @ (if ELAPSED (now s) (next_serial_status_ms s)
        then report_calls cfg l (degPinda_at e (degPinda_calls (outside s))) else [])
     @ [Idle, Reset_stepper_timeout]
     @ (if deadline_fires e l s then timeout_calls l else [])"
  by (simp add: pass_defs deadline_fires_def report_calls_def timeout_calls_def)

lemma loop_body_passes: "passes (snd (loop_body cfg e l s)) = Suc (passes s)"
  by (simp add: pass_defs)

lemma loop_body_now:
  "now (snd (loop_body cfg e l s)) = millis_at e (millis_calls (outside s))"
  by (simp add: pass_defs)

lemma loop_body_next:
  "next_serial_status_ms (snd (loop_body cfg e l s)) =
     (if ELAPSED (now s) (next_serial_status_ms s) then now s + 1000 else next_serial_status_ms s)"
  by (simp add: pass_defs)

lemma loop_body_millis_calls:
  "millis_calls (outside (snd (loop_body cfg e l s))) = Suc (millis_calls (outside s))"
  by (simp add: pass_defs)

lemma loop_body_degPinda_calls:
  "degPinda_calls (outside (snd (loop_body cfg e l s))) = Suc (degPinda_calls (outside s))"
  by (simp add: pass_defs)

lemma loop_body_target_pinda:
  "target_pinda (outside (snd (loop_body cfg e l s))) = target_pinda (outside s)"
  by (simp add: pass_defs)

lemmas float_defs = float_less_def float_greater_def float_less_eq_def float_greater_eq_def
  float_of_int16_def

lemma keep_waiting_iff:
  "keep_waiting l r \<longleftrightarrow>
     r \<noteq> NaN \<and> \<not> exit_predicate (direction_of (cooling l)) r (target_temp l)"
  by (cases r) (auto simp: keep_waiting_def exit_predicate_def direction_of_def float_defs)

lemma exit_predicate_stops:
  "exit_predicate (direction_of (cooling l)) r (target_temp l) \<Longrightarrow> \<not> keep_waiting l r"
  by (simp add: keep_waiting_iff)

lemma loop_body_no_report:
  assumes "\<not> ELAPSED (now s) (next_serial_status_ms s)"
  shows "filter is_report (calls (outside (snd (loop_body cfg e l s))))
         = filter is_report (calls (outside s))"
  using assms by (simp add: loop_body_calls timeout_calls_def is_report_def)

section \<open>Several passes\<close>

lemma passes_upto_Suc:
  "passes_upto cfg e l (Suc n) s =
     (if fst (loop_body cfg e l s) = None then passes_upto cfg e l n (snd (loop_body cfg e l s))
      else loop_body cfg e l s)"
  by (cases "loop_body cfg e l s") auto

declare passes_upto.simps(2) [simp del]

lemma passes_upto_Idle:
  "count_list (calls (outside (snd (passes_upto cfg e l n s)))) Idle + passes s =
     count_list (calls (outside s)) Idle + passes (snd (passes_upto cfg e l n s))"
proof (induction n arbitrary: s)
  case 0
  show ?case by simp
next
  case (Suc n)
  have one: "count_list (calls (outside (snd (loop_body cfg e l s)))) Idle =
      Suc (count_list (calls (outside s)) Idle)"
    by (simp add: loop_body_calls report_calls_def timeout_calls_def)
  show ?case
    using Suc.IH [of "snd (loop_body cfg e l s)"] one
    by (simp add: passes_upto_Suc loop_body_passes)
qed

lemma passes_upto_Reset_stepper_timeout:
  "count_list (calls (outside (snd (passes_upto cfg e l n s)))) Reset_stepper_timeout + passes s =
     count_list (calls (outside s)) Reset_stepper_timeout + passes (snd (passes_upto cfg e l n s))"
proof (induction n arbitrary: s)
  case 0
  show ?case by simp
next
  case (Suc n)
  have one: "count_list (calls (outside (snd (loop_body cfg e l s)))) Reset_stepper_timeout =
      Suc (count_list (calls (outside s)) Reset_stepper_timeout)"
    by (simp add: loop_body_calls report_calls_def timeout_calls_def)
  show ?case
    using Suc.IH [of "snd (loop_body cfg e l s)"] one
    by (simp add: passes_upto_Suc loop_body_passes)
qed

lemma passes_upto_no_deadline:
  assumes "timeout l = 0"
  shows "fst (passes_upto cfg e l n s) \<noteq> Some TimedOut"
proof (induction n arbitrary: s)
  case 0
  show ?case by simp
next
  case (Suc n)
  from assms have "fst (loop_body cfg e l s) \<noteq> Some TimedOut"
    by (simp add: loop_body_exit deadline_fires_def)
  with Suc.IH [of "snd (loop_body cfg e l s)"] show ?case
    by (simp add: passes_upto_Suc)
qed

lemma passes_upto_no_diagnostic:
  assumes "timeout l = 0"
  shows "count_list (calls (outside (snd (passes_upto cfg e l n s))))
           (Serial_echopgm ''TIMEOUT on sensor '')
         = count_list (calls (outside s)) (Serial_echopgm ''TIMEOUT on sensor '')"
proof (induction n arbitrary: s)
  case 0
  show ?case by simp
next
  case (Suc n)
  from assms
  have "count_list (calls (outside (snd (loop_body cfg e l s))))
           (Serial_echopgm ''TIMEOUT on sensor '')
         = count_list (calls (outside s)) (Serial_echopgm ''TIMEOUT on sensor '')"
    by (simp add: loop_body_calls deadline_fires_def report_calls_def)
  with Suc.IH [of "snd (loop_body cfg e l s)"] show ?case
    by (simp add: passes_upto_Suc)
qed

lemma passes_upto_keeps_waiting:
  assumes "timeout l = 0" and "\<And>k. keep_waiting l (degPinda_at e k)"
  shows "fst (passes_upto cfg e l n s) = None"
proof (induction n arbitrary: s)
  case 0
  show ?case by simp
next
  case (Suc n)
  from assms have "fst (loop_body cfg e l s) = None"
    by (simp add: loop_body_exit deadline_fires_def)
  with Suc.IH [of "snd (loop_body cfg e l s)"] show ?case
    by (simp add: passes_upto_Suc)
qed

lemma passes_upto_passes_mono: "passes s \<le> passes (snd (passes_upto cfg e l n s))"
proof (induction n arbitrary: s)
  case 0
  show ?case by simp
next
  case (Suc n)
  from Suc.IH [of "snd (loop_body cfg e l s)"] show ?case
    by (simp add: passes_upto_Suc loop_body_passes)
qed

section \<open>The command as a whole\<close>

lemma M199_waited:
  assumes "M199 cfg e cmd w = Some (Some (x, n), w')"
  obtains target s' where
    "\<not> DRYRUN cmd" and "param_S cmd = Some target" and
    "\<not> sint (resolve_extruder cfg cmd) < 0" and
    "do_while cfg e (M199_locals cfg e cmd target w) (M199_entry cfg e cmd target w)
     = Some (x, s')" and
    "n = passes s'" and "w' = wait_exit (outside s')"
  using assms
  by (auto simp: M199_def M199_locals_def Let_def split: if_splits option.splits prod.splits)

lemma M199_enters:
  assumes "\<not> DRYRUN cmd" and "param_S cmd = Some target"
    and "\<not> sint (resolve_extruder cfg cmd) < 0"
  shows "M199 cfg e cmd w =
     map_option (\<lambda>(x, s'). (Some (x, passes s'), wait_exit (outside s')))
       (do_while cfg e (M199_locals cfg e cmd target w) (M199_entry cfg e cmd target w))"
  using assms
  by (auto simp: M199_def M199_locals_def Let_def split: option.splits)

lemma read_timeout_calls: "calls (snd (read_timeout e cmd w)) = calls w"
  by (simp add: read_timeout_def world_ops split: option.splits)

lemma wait_entry_calls:
  "calls (outside (wait_entry e l w)) = calls w @
     [Serial_echopgm ''Wait for sensor '',
      Serial_echopgm (if cooling l then ''cool down'' else ''warm up''),
      Serial_echopgm '' to target temperature: '', Serial_echo (target_temp l), Serial_eol,
      SetTargetPinda (target_temp l)]"
  by (simp add: wait_entry_def announce_def world_ops Let_def)

lemma wait_entry_passes: "passes (wait_entry e l w) = 0"
  by (simp add: wait_entry_def world_ops Let_def)

lemma M199_entry_calls:
  "calls (outside (M199_entry cfg e cmd target w)) = calls w @
     [Serial_echopgm ''Wait for sensor '',
      Serial_echopgm (if is_pinda_cooling cmd then ''cool down'' else ''warm up''),
      Serial_echopgm '' to target temperature: '', Serial_echo target, Serial_eol,
      SetTargetPinda target]"
  by (simp add: M199_entry_def wait_entry_calls read_timeout_calls M199_locals_def)

lemma M199_entry_passes: "passes (M199_entry cfg e cmd target w) = 0"
  by (simp add: M199_entry_def wait_entry_passes)

lemma M199_entry_now:
  "now (M199_entry cfg e cmd target w) = millis_at e (entry_read e cmd w)"
  by (simp add: M199_entry_def wait_entry_def entry_read_def announce_def world_ops Let_def)

lemma M199_entry_next:
  "next_serial_status_ms (M199_entry cfg e cmd target w) = millis_at e (entry_read e cmd w) + 1000"
  by (simp add: M199_entry_def wait_entry_def entry_read_def announce_def world_ops Let_def)

lemma M199_entry_millis_calls:
  "millis_calls (outside (M199_entry cfg e cmd target w)) = Suc (entry_read e cmd w)"
  by (simp add: M199_entry_def wait_entry_def entry_read_def announce_def world_ops Let_def)

lemma M199_entry_degPinda_calls:
  "degPinda_calls (outside (M199_entry cfg e cmd target w)) = degPinda_calls w"
  by (simp add: M199_entry_def wait_entry_def announce_def world_ops Let_def read_timeout_def
      split: option.splits)


lemma wait_exit_calls: "calls (wait_exit w) = calls w @ [Reset_status, SetTargetPinda 0]"
  by (simp add: wait_exit_def world_ops)

lemma wait_exit_target_pinda: "target_pinda (wait_exit w) = 0"
  by (simp add: wait_exit_def world_ops)

lemmas run_defs = M199_def M199_locals_def M199_entry_def resolve_extruder_def
  read_timeout_def wait_entry_def wait_exit_def announce_def keep_waiting_def float_defs
  ELAPSED_def
  is_pinda_cooling_def fresh_world_def lcd_build_def steady_clock_def jumping_clock_def
  steady_sensor_def sensor_reading_def faulty_sensor_def

lemma waits_forever:
  assumes "\<not> DRYRUN cmd" and "param_S cmd = Some target"
    and "\<not> sint (resolve_extruder cfg cmd) < 0"
    and "fst (read_timeout e cmd w) = 0"
    and "\<And>k. keep_waiting (M199_locals cfg e cmd target w) (degPinda_at e k)"
  shows "M199 cfg e cmd w = None"
proof -
  have "timeout (M199_locals cfg e cmd target w) = 0"
    using assms(4) by (simp add: M199_locals_def)
  then have "do_while cfg e (M199_locals cfg e cmd target w) (M199_entry cfg e cmd target w)
      = None"
    using assms(5) by (intro do_while_None passes_upto_keeps_waiting)
  then show ?thesis
    by (simp add: M199_enters [OF assms(1-3)])
qed

subsection \<open>The wrapping clock\<close>

text \<open>
  Less than a second after the time \<open>t0\<close>, the time \<open>t0 + 1000\<close> has not been reached,
  wherever on the 32-bit counter \<open>t0\<close> lies.
\<close>

lemma sint_minus_1000:
  fixes d :: "32 word"
  assumes "unat d < 1000"
  shows "sint (d - 1000) = uint d - 1000"
proof -
  have "uint d = int (unat d)" by simp
  with assms have small: "uint d < 1000" by linarith
  have "d - 1000 = word_of_int (uint d - uint (1000 :: 32 word))"
    by (rule word_sub_wi)
  then have e: "d - 1000 = word_of_int (uint d - 1000)"
    by simp
  have "sint (word_of_int (uint d - 1000) :: 32 word) = signed_take_bit (LENGTH(32) - 1) (uint d - 1000)"
    by (rule sint_sbintrunc')
  also have "\<dots> = uint d - 1000"
    using small by (intro signed_take_bit_int_eq_self) simp_all
  finally show ?thesis
    by (simp only: e)
qed

lemma not_ELAPSED_within_second:
  assumes "unat (t - t0) < 1000"
  shows "\<not> ELAPSED t (t0 + 1000)"
proof -
  have "t - (t0 + 1000) = (t - t0) - 1000" by simp
  then have "sint (t - (t0 + 1000)) = uint (t - t0) - 1000"
    using sint_minus_1000 [OF assms] by (simp only:)
  moreover have "uint (t - t0) = int (unat (t - t0))" by simp
  ultimately have "sint (t - (t0 + 1000)) < 0" using assms by linarith
  then show ?thesis by (simp add: ELAPSED_def)
qed
subsection \<open>No status report within the first second\<close>

lemma passes_upto_no_report:
  assumes "next_serial_status_ms s = t0 + 1000"
    and "passes s < passes (snd (passes_upto cfg e l n s)) \<longrightarrow> unat (now s - t0) < 1000"
    and "\<forall>j. passes s + Suc j < passes (snd (passes_upto cfg e l n s))
           \<longrightarrow> unat (millis_at e (millis_calls (outside s) + j) - t0) < 1000"
  shows "filter is_report (calls (outside (snd (passes_upto cfg e l n s))))
         = filter is_report (calls (outside s))"
  using assms
proof (induction n arbitrary: s)
  case 0
  show ?case by simp
next
  case (Suc n)
  let ?s1 = "snd (loop_body cfg e l s)"
  let ?s' = "snd (passes_upto cfg e l (Suc n) s)"
  have s': "?s' = (if fst (loop_body cfg e l s) = None then snd (passes_upto cfg e l n ?s1)
      else ?s1)"
    by (simp add: passes_upto_Suc)
  have "passes ?s1 \<le> passes ?s'"
    using passes_upto_passes_mono [of ?s1 cfg e l n] by (simp add: s')
  then have more: "passes s < passes ?s'"
    by (simp add: loop_body_passes)
  with Suc.prems(2) have "unat (now s - t0) < 1000" by blast
  then have quiet: "\<not> ELAPSED (now s) (next_serial_status_ms s)"
    by (simp add: Suc.prems(1) not_ELAPSED_within_second)
  have first: "filter is_report (calls (outside ?s1)) = filter is_report (calls (outside s))"
    using quiet by (rule loop_body_no_report)
  show ?case
  proof (cases "fst (loop_body cfg e l s) = None")
    case False
    with first show ?thesis by (simp add: s' del: not_None_eq)
  next
    case True
    then have eq: "?s' = snd (passes_upto cfg e l n ?s1)" by (simp add: s')
    have a: "next_serial_status_ms ?s1 = t0 + 1000"
      using quiet Suc.prems(1) by (simp add: loop_body_next)
    have b: "passes ?s1 < passes (snd (passes_upto cfg e l n ?s1))
        \<longrightarrow> unat (now ?s1 - t0) < 1000"
      using Suc.prems(3) [rule_format, of 0]
      by (simp add: eq loop_body_passes loop_body_now)
    have c: "\<forall>j. passes ?s1 + Suc j < passes (snd (passes_upto cfg e l n ?s1))
        \<longrightarrow> unat (millis_at e (millis_calls (outside ?s1) + j) - t0) < 1000"
      using Suc.prems(3) [rule_format, of "Suc j" for j]
      by (simp add: eq loop_body_passes loop_body_millis_calls)
    from Suc.IH [OF a b c] first show ?thesis by (simp add: eq)
  qed
qed

subsection \<open>A deadline that is not zero ends the wait\<close>

text \<open>
  When the deadline is not \<open>0\<close> and the sensor never lets the loop go, the loop ends
  with the pass whose clock reading is the first to have reached the deadline: in state
  \<open>TimedOut\<close>, with one time-out diagnostic, printed last.
\<close>

lemma deadline_ends_the_wait:
  assumes "timeout l \<noteq> 0"
    and "ELAPSED (millis_at e (millis_calls (outside s) + k)) (timeout l)"
    and "\<forall>j<k. \<not> ELAPSED (millis_at e (millis_calls (outside s) + j)) (timeout l)"
    and "\<forall>j<k. keep_waiting l (degPinda_at e (degPinda_calls (outside s) + j))"
  shows "\<exists>s'. do_while cfg e l s = Some (TimedOut, s') \<and> passes s' = passes s + Suc k
           \<and> count_list (calls (outside s')) (Serial_echopgm ''TIMEOUT on sensor '')
               = Suc (count_list (calls (outside s)) (Serial_echopgm ''TIMEOUT on sensor ''))
           \<and> (\<exists>before. calls (outside s') = before @ timeout_calls l)"
  using assms(2-4)
proof (induction k arbitrary: s)
  case 0
  let ?s' = "snd (loop_body cfg e l s)"
  from 0 assms(1) have f: "deadline_fires e l s" by (simp add: deadline_fires_def)
  then have "fst (loop_body cfg e l s) = Some TimedOut" by (simp add: loop_body_exit)
  then have "loop_body cfg e l s = (Some TimedOut, ?s')" by (simp add: prod_eq_iff)
  then have "do_while cfg e l s = Some (TimedOut, ?s')" by (rule loop_exit)
  moreover have "passes ?s' = passes s + Suc 0" by (simp add: loop_body_passes)
  moreover have "count_list (calls (outside ?s')) (Serial_echopgm ''TIMEOUT on sensor '')
      = Suc (count_list (calls (outside s)) (Serial_echopgm ''TIMEOUT on sensor ''))"
    using f by (simp add: loop_body_calls report_calls_def timeout_calls_def)
  moreover have "\<exists>before. calls (outside ?s') = before @ timeout_calls l"
    using f by (simp add: loop_body_calls)
  ultimately show ?case by blast
next
  case (Suc k)
  let ?s1 = "snd (loop_body cfg e l s)"
  from Suc.prems(2) have "\<not> deadline_fires e l s"
    by (simp add: deadline_fires_def) (metis add.right_neutral zero_less_Suc)
  moreover from Suc.prems(3) have "keep_waiting l (degPinda_at e (degPinda_calls (outside s)))"
    by (metis add.right_neutral zero_less_Suc)
  ultimately have n: "fst (loop_body cfg e l s) = None" 
    and quiet: "count_list (calls (outside ?s1)) (Serial_echopgm ''TIMEOUT on sensor '')
      = count_list (calls (outside s)) (Serial_echopgm ''TIMEOUT on sensor '')"
    by (simp_all add: loop_body_exit loop_body_calls report_calls_def)
  then have "loop_body cfg e l s = (None, ?s1)" by (simp add: prod_eq_iff)
  then have again: "do_while cfg e l s = do_while cfg e l ?s1" by (rule loop_again)
  have a: "ELAPSED (millis_at e (millis_calls (outside ?s1) + k)) (timeout l)"
    using Suc.prems(1) by (simp add: loop_body_millis_calls)
  have b: "\<forall>j<k. \<not> ELAPSED (millis_at e (millis_calls (outside ?s1) + j)) (timeout l)"
    using Suc.prems(2) by (auto simp: loop_body_millis_calls)
  have c: "\<forall>j<k. keep_waiting l (degPinda_at e (degPinda_calls (outside ?s1) + j))"
    using Suc.prems(3) by (auto simp: loop_body_degPinda_calls)
  from Suc.IH [OF a b c] again quiet show ?case
    by (auto simp: loop_body_passes)
qed

section \<open>The claims\<close>

text \<open>
  C1. Every pass of the poll loop, the last one included, calls \<^verbatim>\<open>idle()\<close> once and
  \<^verbatim>\<open>reset_stepper_timeout()\<close> once: when the command returns after \<open>n\<close> passes, it
  has made exactly \<open>n\<close> calls of each. (For the first passes of a wait that never
  ends, the lemmas \<open>passes_upto_Idle\<close> and \<open>passes_upto_Reset_stepper_timeout\<close> say the
  same.)
\<close>

theorem yield_and_watchdog_once_per_pass:
  assumes "M199 cfg e cmd w = Some (Some (x, n), w')"
  shows "count_list (calls w') Idle = count_list (calls w) Idle + n \<and>
         count_list (calls w') Reset_stepper_timeout =
           count_list (calls w) Reset_stepper_timeout + n"
proof (rule M199_waited [OF assms])
  fix target s'
  assume run: "do_while cfg e (M199_locals cfg e cmd target w) (M199_entry cfg e cmd target w)
      = Some (x, s')"
    and n: "n = passes s'" and w': "w' = wait_exit (outside s')"
  from run obtain k where
    "passes_upto cfg e (M199_locals cfg e cmd target w) k (M199_entry cfg e cmd target w)
      = (Some x, s')"
    using do_while_passes_upto by blast
  then have s': "s' = snd (passes_upto cfg e (M199_locals cfg e cmd target w) k
      (M199_entry cfg e cmd target w))"
    by simp
  have "count_list (calls (outside s')) Idle = count_list (calls w) Idle + passes s'"
    unfolding s'
    using passes_upto_Idle [of cfg e "M199_locals cfg e cmd target w" k
        "M199_entry cfg e cmd target w"]
    by (simp add: M199_entry_calls M199_entry_passes)
  moreover
  have "count_list (calls (outside s')) Reset_stepper_timeout =
      count_list (calls w) Reset_stepper_timeout + passes s'"
    unfolding s'
    using passes_upto_Reset_stepper_timeout [of cfg e "M199_locals cfg e cmd target w" k
        "M199_entry cfg e cmd target w"]
    by (simp add: M199_entry_calls M199_entry_passes)
  ultimately show ?thesis
    by (simp add: w' n wait_exit_calls)
qed

theorem yield_and_watchdog_once_per_pass_witness:
  "map_option
     (\<lambda>(r, w'). (r, count_list (calls w') Idle, count_list (calls w') Reset_stepper_timeout))
     (M199 lcd_build
        \<lparr>millis_at = steady_clock 0 100, degPinda_at = sensor_reading [20, 40, 61]\<rparr>
        \<lparr>DRYRUN = False, param_S = Some 60, seen_W = True, seen_C = False, param_T = None,
         degTargetBed = 0, degTargetHotend0 = 0, get_target_extruder_from_command = 0\<rparr>
        fresh_world)
   = Some (Some (Completed, 3), 3, 3)"
proof -
  obtain w' where run:
    "M199 lcd_build
        \<lparr>millis_at = steady_clock 0 100, degPinda_at = sensor_reading [20, 40, 61]\<rparr>
        \<lparr>DRYRUN = False, param_S = Some 60, seen_W = True, seen_C = False, param_T = None,
         degTargetBed = 0, degTargetHotend0 = 0, get_target_extruder_from_command = 0\<rparr>
        fresh_world = Some (Some (Completed, 3), w')"
    by (simp add: run_defs pass_defs loop_exit loop_again)
  from yield_and_watchdog_once_per_pass [OF run] run show ?thesis
    by (simp add: fresh_world_def)
qed

text \<open>
  C2. However the loop is left (\<open>x\<close> is \<open>Completed\<close> or \<open>TimedOut\<close>), the command ends
  with \<^verbatim>\<open>thermalManager.setTargetPinda(0)\<close>, so the sensor's target is \<open>0\<close> when it
  returns.
\<close>

theorem setpoint_cleared_on_every_exit:
  assumes "M199 cfg e cmd w = Some (Some (x, n), w')"
  shows "target_pinda w' = 0 \<and> last (calls w') = SetTargetPinda 0"
proof (rule M199_waited [OF assms])
  fix s'
  assume "w' = wait_exit (outside s')"
  then show ?thesis
    by (simp add: wait_exit_calls wait_exit_target_pinda)
qed

theorem setpoint_cleared_on_every_exit_witness:
  "map_option (\<lambda>(r, w'). (r, target_pinda w', last (calls w')))
     (M199 lcd_build
        \<lparr>millis_at = steady_clock 0 700, degPinda_at = steady_sensor 50\<rparr>
        \<lparr>DRYRUN = False, param_S = Some 20, seen_W = False, seen_C = True,
         param_T = Some 2000, degTargetBed = 60, degTargetHotend0 = 0,
         get_target_extruder_from_command = 0\<rparr>
        fresh_world)
   = Some (Some (TimedOut, 2), 0, SetTargetPinda 0)"
proof -
  obtain w' where run:
    "M199 lcd_build
        \<lparr>millis_at = steady_clock 0 700, degPinda_at = steady_sensor 50\<rparr>
        \<lparr>DRYRUN = False, param_S = Some 20, seen_W = False, seen_C = True,
         param_T = Some 2000, degTargetBed = 60, degTargetHotend0 = 0,
         get_target_extruder_from_command = 0\<rparr>
        fresh_world = Some (Some (TimedOut, 2), w')"
    by (simp add: run_defs pass_defs loop_exit loop_again)
  from setpoint_cleared_on_every_exit [OF run] run show ?thesis
    by simp
qed

text \<open>
  C3 (as amended). The deadline check comes before the test of the loop condition, and
  the loop condition asks whether the reading is still short of the target, which is
  false of a reading that is not a number. On a pass whose deadline check does not fire,
  the loop is left in state \<open>Completed\<close> exactly when the direction is warming and the
  reading is at or above the target, or the direction is cooling and the reading is at or
  below it, or the reading is not a number (NaN); it goes round again otherwise. On a
  pass whose deadline check fires, the loop is left in state \<open>TimedOut\<close> whatever the
  reading.
\<close>

theorem exit_test_after_deadline_check:
  "fst (loop_body cfg e l s) =
     (if deadline_fires e l s then Some TimedOut
      else if degPinda_at e (degPinda_calls (outside s)) = NaN
              \<or> exit_predicate (direction_of (cooling l))
                   (degPinda_at e (degPinda_calls (outside s))) (target_temp l)
      then Some Completed
      else None)"
  by (auto simp: loop_body_exit keep_waiting_iff)

text \<open>
  C3 as stated fails in both directions. \<^verbatim>\<open>M199 S60 W T1\<close> with a sensor at 61
  degrees, when the yield of the first pass takes 1.5 seconds: the direction is warming
  and the reading is above the target, yet the loop is left in state \<open>TimedOut\<close>.
  \<^verbatim>\<open>M199 S60 W\<close> with a sensor whose reading is not a number: the exit predicate is
  false, yet the loop is left in state \<open>Completed\<close> after one pass.
\<close>

theorem exit_state_not_exactly_exit_predicate:
  "direction_of
     (is_pinda_cooling
        \<lparr>DRYRUN = False, param_S = Some 60, seen_W = True, seen_C = False,
         param_T = Some 1000, degTargetBed = 0, degTargetHotend0 = 0,
         get_target_extruder_from_command = 0\<rparr>) = Warming
   \<and> exit_predicate Warming (Finite 61) 60
   \<and> map_option fst
       (M199 lcd_build
          \<lparr>millis_at = jumping_clock 2 1500, degPinda_at = steady_sensor 61\<rparr>
          \<lparr>DRYRUN = False, param_S = Some 60, seen_W = True, seen_C = False,
           param_T = Some 1000, degTargetBed = 0, degTargetHotend0 = 0,
           get_target_extruder_from_command = 0\<rparr>
          fresh_world)
     = Some (Some (TimedOut, 1))
   \<and> direction_of
     (is_pinda_cooling
        \<lparr>DRYRUN = False, param_S = Some 60, seen_W = True, seen_C = False,
         param_T = None, degTargetBed = 0, degTargetHotend0 = 0,
         get_target_extruder_from_command = 0\<rparr>) = Warming
   \<and> \<not> exit_predicate Warming NaN 60
   \<and> map_option fst
       (M199 lcd_build
          \<lparr>millis_at = steady_clock 0 100, degPinda_at = faulty_sensor\<rparr>
          \<lparr>DRYRUN = False, param_S = Some 60, seen_W = True, seen_C = False,
           param_T = None, degTargetBed = 0, degTargetHotend0 = 0,
           get_target_extruder_from_command = 0\<rparr>
          fresh_world)
     = Some (Some (Completed, 1))"
  by (simp add: run_defs pass_defs loop_exit loop_again direction_of_def exit_predicate_def)

text \<open>
  C4. The direction is warming when \<^verbatim>\<open>W\<close> is given; otherwise cooling when \<^verbatim>\<open>C\<close>
  is given; otherwise cooling when the targets of the bed and of hotend 0 are both zero;
  otherwise warming. The command computes it once, before the loop (\<open>M199_locals\<close>).
\<close>

theorem direction_precedence:
  "direction_of (is_pinda_cooling cmd) =
     (if seen_W cmd then Warming
      else if seen_C cmd then Cooling
      else if degTargetBed cmd = 0 \<and> degTargetHotend0 cmd = 0 then Cooling
      else Warming)"
  by (simp add: is_pinda_cooling_def direction_of_def)

text \<open>
  C5 (as amended). When the parameter \<^verbatim>\<open>T\<close> is absent, the deadline check never fires:
  if the command returns after a wait, the loop was left in state \<open>Completed\<close>, and no
  time-out diagnostic was printed.
\<close>

theorem no_T_no_timeout:
  assumes "param_T cmd = None" and "M199 cfg e cmd w = Some (Some (x, n), w')"
  shows "x = Completed \<and>
         count_list (calls w') (Serial_echopgm ''TIMEOUT on sensor '')
         = count_list (calls w) (Serial_echopgm ''TIMEOUT on sensor '')"
proof (rule M199_waited [OF assms(2)])
  fix target s'
  assume run: "do_while cfg e (M199_locals cfg e cmd target w) (M199_entry cfg e cmd target w)
      = Some (x, s')"
    and w': "w' = wait_exit (outside s')"
  have no: "timeout (M199_locals cfg e cmd target w) = 0"
    using assms(1) by (simp add: M199_locals_def read_timeout_def)
  from run obtain k where
    k: "passes_upto cfg e (M199_locals cfg e cmd target w) k (M199_entry cfg e cmd target w)
      = (Some x, s')"
    using do_while_passes_upto by blast
  from passes_upto_no_deadline [OF no, of cfg e k "M199_entry cfg e cmd target w"] k
  have "x = Completed" by (cases x) simp_all
  moreover
  from passes_upto_no_diagnostic [OF no, of cfg e k "M199_entry cfg e cmd target w"] k
  have "count_list (calls (outside s')) (Serial_echopgm ''TIMEOUT on sensor '')
      = count_list (calls w) (Serial_echopgm ''TIMEOUT on sensor '')"
    by (simp add: M199_entry_calls)
  ultimately show ?thesis
    by (simp add: w' wait_exit_calls)
qed

theorem no_T_no_timeout_witness:
  "map_option
     (\<lambda>(r, w'). (r, count_list (calls w') (Serial_echopgm ''TIMEOUT on sensor '')))
     (M199 lcd_build
        \<lparr>millis_at = steady_clock 0 400, degPinda_at = sensor_reading [31, 26, 24]\<rparr>
        \<lparr>DRYRUN = False, param_S = Some 25, seen_W = False, seen_C = False, param_T = None,
         degTargetBed = 0, degTargetHotend0 = 0, get_target_extruder_from_command = 0\<rparr>
        fresh_world)
   = Some (Some (Completed, 3), 0)"
proof -
  have absent: "param_T
        \<lparr>DRYRUN = False, param_S = Some 25, seen_W = False, seen_C = False, param_T = None,
         degTargetBed = 0, degTargetHotend0 = 0, get_target_extruder_from_command = 0\<rparr>
      = None"
    by simp
  obtain w' where run:
    "M199 lcd_build
        \<lparr>millis_at = steady_clock 0 400, degPinda_at = sensor_reading [31, 26, 24]\<rparr>
        \<lparr>DRYRUN = False, param_S = Some 25, seen_W = False, seen_C = False, param_T = None,
         degTargetBed = 0, degTargetHotend0 = 0, get_target_extruder_from_command = 0\<rparr>
        fresh_world = Some (Some (Completed, 3), w')"
    by (simp add: run_defs pass_defs loop_exit loop_again)
  from no_T_no_timeout [OF absent run] run show ?thesis
    by (simp add: fresh_world_def)
qed

text \<open>
  C5 as stated fails for a duration of zero: \<^verbatim>\<open>M199 S20 C T0\<close> with a sensor at 50
  degrees, issued when the clock shows 5000. The deadline is \<open>5000 + 0\<close>, which is not
  \<open>0\<close> and which the clock reading of the first pass has reached, so the loop is left
  in state \<open>TimedOut\<close> after one pass.
\<close>

theorem T0_times_out_at_once:
  "param_T
     \<lparr>DRYRUN = False, param_S = Some 20, seen_W = False, seen_C = True, param_T = Some 0,
      degTargetBed = 0, degTargetHotend0 = 0, get_target_extruder_from_command = 0\<rparr>
   = Some 0
   \<and> map_option fst
       (M199 lcd_build
          \<lparr>millis_at = steady_clock 5000 10, degPinda_at = steady_sensor 50\<rparr>
          \<lparr>DRYRUN = False, param_S = Some 20, seen_W = False, seen_C = True,
           param_T = Some 0, degTargetBed = 0, degTargetHotend0 = 0,
           get_target_extruder_from_command = 0\<rparr>
          fresh_world)
     = Some (Some (TimedOut, 1))"
  by (simp add: run_defs pass_defs loop_exit loop_again)


text \<open>
  C6. \<^verbatim>\<open>M199 S20 C T2\<close> with a sensor at 50 degrees, issued when the clock shows
  \<open>2 ^ 32 - 2000\<close>: the deadline wraps around to \<open>0\<close>, which the loop reads as
  "no deadline", and the command never returns.
\<close>

theorem deadline_zero_never_times_out:
  "M199 lcd_build
     \<lparr>millis_at = steady_clock 4294965296 100, degPinda_at = steady_sensor 50\<rparr>
     \<lparr>DRYRUN = False, param_S = Some 20, seen_W = False, seen_C = True,
      param_T = Some 2000, degTargetBed = 0, degTargetHotend0 = 0,
      get_target_extruder_from_command = 0\<rparr>
     fresh_world
   = None"
  by (rule waits_forever [where target = 20])
    (simp_all add: read_timeout_def millis_def steady_clock_def fresh_world_def
      resolve_extruder_def lcd_build_def keep_waiting_def float_defs M199_locals_def
      is_pinda_cooling_def steady_sensor_def)


text \<open>
  C7 (as amended). When the loop is entered and the first reading of the sensor already
  satisfies the exit predicate, the loop makes exactly one pass, with one call of
  \<^verbatim>\<open>idle()\<close> and one of \<^verbatim>\<open>reset_stepper_timeout()\<close>, and is then left: in state
  \<open>Completed\<close> when the deadline check of that pass does not fire, in state
  \<open>TimedOut\<close> when it does.
\<close>

theorem satisfied_at_first_read_one_pass:
  assumes "\<not> DRYRUN cmd" and "param_S cmd = Some target"
    and "\<not> sint (resolve_extruder cfg cmd) < 0"
    and "exit_predicate (direction_of (is_pinda_cooling cmd))
           (degPinda_at e (degPinda_calls w)) target"
  shows "\<exists>w'. M199 cfg e cmd w =
           Some (Some (if deadline_fires e (M199_locals cfg e cmd target w)
                            (M199_entry cfg e cmd target w)
                       then TimedOut else Completed, 1), w')
         \<and> count_list (calls w') Idle = count_list (calls w) Idle + 1
         \<and> count_list (calls w') Reset_stepper_timeout =
             count_list (calls w) Reset_stepper_timeout + 1"
proof -
  let ?l = "M199_locals cfg e cmd target w"
  let ?s = "M199_entry cfg e cmd target w"
  let ?x = "if deadline_fires e ?l ?s then TimedOut else Completed"
  let ?s' = "snd (loop_body cfg e ?l ?s)"
  have "\<not> keep_waiting ?l (degPinda_at e (degPinda_calls (outside ?s)))"
    using assms(4) by (simp add: keep_waiting_iff M199_entry_degPinda_calls M199_locals_def)
  then have "fst (loop_body cfg e ?l ?s) = Some ?x"
    by (simp add: loop_body_exit)
  then have "loop_body cfg e ?l ?s = (Some ?x, ?s')"
    by (simp add: prod_eq_iff)
  then have "do_while cfg e ?l ?s = Some (?x, ?s')"
    by (rule loop_exit)
  then have run: "M199 cfg e cmd w = Some (Some (?x, 1), wait_exit (outside ?s'))"
    by (simp add: M199_enters [OF assms(1-3)] loop_body_passes M199_entry_passes)
  have "count_list (calls (wait_exit (outside ?s'))) Idle = count_list (calls w) Idle + 1"
    by (simp add: wait_exit_calls loop_body_calls M199_entry_calls report_calls_def
        timeout_calls_def)
  moreover
  have "count_list (calls (wait_exit (outside ?s'))) Reset_stepper_timeout =
      count_list (calls w) Reset_stepper_timeout + 1"
    by (simp add: wait_exit_calls loop_body_calls M199_entry_calls report_calls_def
        timeout_calls_def)
  ultimately show ?thesis
    using run by blast
qed

theorem satisfied_at_first_read_one_pass_witness:
  "exit_predicate Cooling (Finite 18) 20 \<and>
   map_option
     (\<lambda>(r, w'). (r, count_list (calls w') Idle, count_list (calls w') Reset_stepper_timeout))
     (M199 lcd_build
        \<lparr>millis_at = steady_clock 0 250, degPinda_at = steady_sensor 18\<rparr>
        \<lparr>DRYRUN = False, param_S = Some 20, seen_W = False, seen_C = False,
         param_T = Some 30000, degTargetBed = 0, degTargetHotend0 = 0,
         get_target_extruder_from_command = 0\<rparr>
        fresh_world)
   = Some (Some (Completed, 1), 1, 1)"
proof -
  let ?e = "\<lparr>millis_at = steady_clock 0 250, degPinda_at = steady_sensor 18\<rparr>"
  let ?cmd = "\<lparr>DRYRUN = False, param_S = Some 20, seen_W = False, seen_C = False,
         param_T = Some 30000, degTargetBed = 0, degTargetHotend0 = 0,
         get_target_extruder_from_command = 0\<rparr>"
  have a: "\<not> DRYRUN ?cmd" by simp
  have b: "param_S ?cmd = Some 20" by simp
  have c: "\<not> sint (resolve_extruder lcd_build ?cmd) < 0"
    by (simp add: resolve_extruder_def lcd_build_def)
  have d: "exit_predicate (direction_of (is_pinda_cooling ?cmd))
      (degPinda_at ?e (degPinda_calls fresh_world)) 20"
    by (simp add: exit_predicate_def float_defs direction_of_def is_pinda_cooling_def
        steady_sensor_def)
  have quiet: "\<not> deadline_fires ?e (M199_locals lcd_build ?e ?cmd 20 fresh_world)
      (M199_entry lcd_build ?e ?cmd 20 fresh_world)"
    by (simp add: deadline_fires_def run_defs world_ops)
  have "exit_predicate Cooling (Finite 18) 20"
    by (simp add: exit_predicate_def float_defs)
  with satisfied_at_first_read_one_pass [OF a b c d] quiet show ?thesis
    by (auto simp: fresh_world_def)
qed

text \<open>
  C7 as stated fails when the deadline check of the first pass fires: \<^verbatim>\<open>M199 S20 T0\<close>
  with all heaters off and the sensor at 20 degrees. The first reading satisfies the exit
  predicate and the loop makes one pass, but it is left in state \<open>TimedOut\<close>.
\<close>

theorem satisfied_at_first_read_yet_timed_out:
  "exit_predicate
     (direction_of
        (is_pinda_cooling
           \<lparr>DRYRUN = False, param_S = Some 20, seen_W = False, seen_C = False,
            param_T = Some 0, degTargetBed = 0, degTargetHotend0 = 0,
            get_target_extruder_from_command = 0\<rparr>))
     (Finite 20) 20
   \<and> map_option fst
       (M199 lcd_build
          \<lparr>millis_at = steady_clock 90000 10, degPinda_at = steady_sensor 20\<rparr>
          \<lparr>DRYRUN = False, param_S = Some 20, seen_W = False, seen_C = False,
           param_T = Some 0, degTargetBed = 0, degTargetHotend0 = 0,
           get_target_extruder_from_command = 0\<rparr>
          fresh_world)
     = Some (Some (TimedOut, 1))"
  by (simp add: run_defs pass_defs loop_exit loop_again direction_of_def exit_predicate_def)

text \<open>
  C8. When the status report of a pass fires, the next report is scheduled one second
  after \<^verbatim>\<open>now\<close>, the time the loop last read, not one second after the time the
  report was scheduled for.
\<close>

theorem report_rearms_from_now:
  assumes "ELAPSED (now s) (next_serial_status_ms s)"
  shows "next_serial_status_ms (snd (loop_body cfg e l s)) = now s + 1000"
  using assms by (simp add: loop_body_next)

theorem report_rearms_from_now_witness:
  "ELAPSED 2500 2000 \<and>
   next_serial_status_ms
     (snd (loop_body lcd_build \<lparr>millis_at = steady_clock 2600 100, degPinda_at = steady_sensor 30\<rparr>
        \<lparr>target_temp = 35, cooling = False, timeout = 0, target_extruder = 0\<rparr>
        \<lparr>now = 2500, next_serial_status_ms = 2000, passes = 4, outside = fresh_world\<rparr>))
     = 3500"
proof -
  have h: "ELAPSED (now \<lparr>now = 2500, next_serial_status_ms = 2000, passes = 4,
      outside = fresh_world\<rparr>)
      (next_serial_status_ms \<lparr>now = 2500, next_serial_status_ms = 2000, passes = 4,
      outside = fresh_world\<rparr>)"
    by (simp add: ELAPSED_def)
  from report_rearms_from_now [OF h] h show ?thesis by simp
qed

text \<open>
  C9. Without the parameter \<^verbatim>\<open>S\<close> the command returns at once and leaves the world
  as it found it: no call is made, the clock and the sensor are not read, the loop is not
  entered.
\<close>

theorem no_target_no_effect:
  assumes "param_S cmd = None"
  shows "M199 cfg e cmd w = Some (None, w)"
  using assms by (simp add: M199_def)

theorem no_target_no_effect_witness:
  "M199 lcd_build \<lparr>millis_at = steady_clock 0 100, degPinda_at = steady_sensor 25\<rparr>
     \<lparr>DRYRUN = False, param_S = None, seen_W = False, seen_C = True, param_T = Some 5000,
      degTargetBed = 60, degTargetHotend0 = 210, get_target_extruder_from_command = 0\<rparr>
     fresh_world
   = Some (None, fresh_world)"
  using no_target_no_effect
    [of "\<lparr>DRYRUN = False, param_S = None, seen_W = False, seen_C = True, param_T = Some 5000,
      degTargetBed = 60, degTargetHotend0 = 210, get_target_extruder_from_command = 0\<rparr>"]
  by simp

text \<open>
  C10. The first status report is scheduled one second after the entry of the loop. If
  every clock reading that a status check of the wait looks at is less than 1000 ms after
  the reading at entry, the command prints no status report: a wait that ends within the
  first second ends without one. (The status check of a pass looks at the reading of the
  pass before, so the readings of all passes but the last one count.)
\<close>

theorem no_report_in_first_second:
  assumes "M199 cfg e cmd w = Some (Some (x, n), w')"
    and "\<forall>j. Suc j < n \<longrightarrow>
           unat (millis_at e (entry_read e cmd w + Suc j) - millis_at e (entry_read e cmd w))
             < 1000"
  shows "filter is_report (calls w') = filter is_report (calls w)"
proof (rule M199_waited [OF assms(1)])
  fix target s'
  let ?l = "M199_locals cfg e cmd target w"
  let ?s = "M199_entry cfg e cmd target w"
  assume run: "do_while cfg e ?l ?s = Some (x, s')"
    and n: "n = passes s'" and w': "w' = wait_exit (outside s')"
  from run obtain k where "passes_upto cfg e ?l k ?s = (Some x, s')"
    using do_while_passes_upto by blast
  then have s': "snd (passes_upto cfg e ?l k ?s) = s'" by simp
  have "filter is_report (calls (outside (snd (passes_upto cfg e ?l k ?s))))
      = filter is_report (calls (outside ?s))"
  proof (rule passes_upto_no_report [where ?t0.0 = "millis_at e (entry_read e cmd w)"])
    show "next_serial_status_ms ?s = millis_at e (entry_read e cmd w) + 1000"
      by (rule M199_entry_next)
    show "passes ?s < passes (snd (passes_upto cfg e ?l k ?s)) \<longrightarrow>
        unat (now ?s - millis_at e (entry_read e cmd w)) < 1000"
      by (simp add: M199_entry_now)
    show "\<forall>j. passes ?s + Suc j < passes (snd (passes_upto cfg e ?l k ?s)) \<longrightarrow>
        unat (millis_at e (millis_calls (outside ?s) + j) - millis_at e (entry_read e cmd w))
          < 1000"
      using assms(2) by (simp add: s' n M199_entry_passes M199_entry_millis_calls)
  qed
  then show ?thesis
    by (simp add: s' w' wait_exit_calls M199_entry_calls is_report_def)
qed

theorem no_report_in_first_second_witness:
  "map_option (\<lambda>(r, w'). (r, filter is_report (calls w')))
     (M199 lcd_build
        \<lparr>millis_at = steady_clock 4294967000 300, degPinda_at = sensor_reading [28, 33, 36, 41]\<rparr>
        \<lparr>DRYRUN = False, param_S = Some 40, seen_W = False, seen_C = False, param_T = None,
         degTargetBed = 60, degTargetHotend0 = 0, get_target_extruder_from_command = 0\<rparr>
        fresh_world)
   = Some (Some (Completed, 4), [])"
proof -
  obtain w' where run:
    "M199 lcd_build
        \<lparr>millis_at = steady_clock 4294967000 300, degPinda_at = sensor_reading [28, 33, 36, 41]\<rparr>
        \<lparr>DRYRUN = False, param_S = Some 40, seen_W = False, seen_C = False, param_T = None,
         degTargetBed = 60, degTargetHotend0 = 0, get_target_extruder_from_command = 0\<rparr>
        fresh_world = Some (Some (Completed, 4), w')"
    by (simp add: run_defs pass_defs loop_exit loop_again)
  have early: "\<forall>j. Suc j < 4 \<longrightarrow>
      unat (millis_at \<lparr>millis_at = steady_clock 4294967000 300,
                degPinda_at = sensor_reading [28, 33, 36, 41]\<rparr>
              (entry_read \<lparr>millis_at = steady_clock 4294967000 300,
                degPinda_at = sensor_reading [28, 33, 36, 41]\<rparr>
                \<lparr>DRYRUN = False, param_S = Some 40, seen_W = False, seen_C = False,
                 param_T = None, degTargetBed = 60, degTargetHotend0 = 0,
                 get_target_extruder_from_command = 0\<rparr> fresh_world + Suc j)
            - millis_at \<lparr>millis_at = steady_clock 4294967000 300,
                degPinda_at = sensor_reading [28, 33, 36, 41]\<rparr>
              (entry_read \<lparr>millis_at = steady_clock 4294967000 300,
                degPinda_at = sensor_reading [28, 33, 36, 41]\<rparr>
                \<lparr>DRYRUN = False, param_S = Some 40, seen_W = False, seen_C = False,
                 param_T = None, degTargetBed = 60, degTargetHotend0 = 0,
                 get_target_extruder_from_command = 0\<rparr> fresh_world))
        < 1000"
  proof (intro allI impI)
    fix j :: nat
    assume "Suc j < 4"
    then consider "j = 0" | "j = 1" | "j = 2" by linarith
    then show "unat (millis_at \<lparr>millis_at = steady_clock 4294967000 300,
                degPinda_at = sensor_reading [28, 33, 36, 41]\<rparr>
              (entry_read \<lparr>millis_at = steady_clock 4294967000 300,
                degPinda_at = sensor_reading [28, 33, 36, 41]\<rparr>
                \<lparr>DRYRUN = False, param_S = Some 40, seen_W = False, seen_C = False,
                 param_T = None, degTargetBed = 60, degTargetHotend0 = 0,
                 get_target_extruder_from_command = 0\<rparr> fresh_world + Suc j)
            - millis_at \<lparr>millis_at = steady_clock 4294967000 300,
                degPinda_at = sensor_reading [28, 33, 36, 41]\<rparr>
              (entry_read \<lparr>millis_at = steady_clock 4294967000 300,
                degPinda_at = sensor_reading [28, 33, 36, 41]\<rparr>
                \<lparr>DRYRUN = False, param_S = Some 40, seen_W = False, seen_C = False,
                 param_T = None, degTargetBed = 60, degTargetHotend0 = 0,
                 get_target_extruder_from_command = 0\<rparr> fresh_world))
        < 1000"
      by cases (simp_all add: entry_read_def read_timeout_def steady_clock_def fresh_world_def)
  qed
  from no_report_in_first_second [OF run early] run show ?thesis
    by (simp add: fresh_world_def)
qed


end
